theory Spec2Isabelle
  imports Main "HOL-Library.Word"
begin

section \<open>The QKD random-byte engine of \<^verbatim>\<open>src/engine/qkd/template_engine.c\<close>\<close>

text \<open>
  The engine keeps five file-scope variables, talks to a key service with HTTP POST
  requests and serves \<^verbatim>\<open>RAND_bytes\<close> requests out of the most recently fetched key
  block. The copy of the same code in \<^verbatim>\<open>temp_engine.zsh\<close> (\<^verbatim>\<open>qkd_engine_connect\<close>,
  \<^verbatim>\<open>qkd_engine_fetch_key\<close>, \<^verbatim>\<open>qkd_rand_bytes\<close>) differs in its messages only.

  Conventions of the model:
  \<^item> a \<^verbatim>\<open>char *\<close> that may be \<^verbatim>\<open>NULL\<close> is a \<open>string option\<close>, the key buffer a
    \<open>byte list option\<close> holding the decoded bytes of the block;
  \<^item> \<^verbatim>\<open>size_t\<close> values are \<open>nat\<close>, \<^verbatim>\<open>int\<close> values are \<open>int\<close>; inside the copy loop
    \<open>0 < bytes_needed \<le> num\<close> and \<open>pos < len\<close>, so no conversion or subtraction there
    wraps;
  \<^item> \<^verbatim>\<open>malloc\<close>, \<^verbatim>\<open>asprintf\<close>, \<^verbatim>\<open>strdup\<close>, \<^verbatim>\<open>strndup\<close> and \<^verbatim>\<open>curl_easy_init\<close> are taken to
    succeed: memory exhaustion is outside the model;
  \<^item> the network is a script of replies consumed one per request, together with the
    list of the requests issued so far;
  \<^item> \<^verbatim>\<open>EVP_DecodeBlock\<close> (OpenSSL) is a parameter \<open>dec\<close>: \<open>None\<close> is its return value
    \<open>-1\<close>, \<open>Some bs\<close> the bytes it wrote, whose number it returns.
\<close>

type_synonym byte = "8 word"

type_synonym evp_decode = "string \<Rightarrow> byte list option"

subsection \<open>State\<close>

record engine_state =
  qkd_service_url :: "string option"
  qkd_key_handle :: "string option"
  qkd_key_buffer :: "byte list option"
  qkd_key_buffer_len :: nat
  qkd_key_buffer_pos :: nat

definition initial_state :: engine_state where
  "initial_state =
     \<lparr>qkd_service_url = None, qkd_key_handle = None, qkd_key_buffer = None,
      qkd_key_buffer_len = 0, qkd_key_buffer_pos = 0\<rparr>"

text \<open>
  What the code maintains about the key buffer: the length variable is the number of
  bytes of the block (0 when there is none) and the read position is within it.
\<close>

definition buffer_ok :: "engine_state \<Rightarrow> bool" where
  "buffer_ok s \<longleftrightarrow>
     (case qkd_key_buffer s of
        None \<Rightarrow> qkd_key_buffer_len s = 0
      | Some bs \<Rightarrow> qkd_key_buffer_len s = length bs)
     \<and> qkd_key_buffer_pos s \<le> qkd_key_buffer_len s"

text \<open>\<open>remaining()\<close> of the specification: the bytes of the block not yet handed out.\<close>

definition remaining :: "engine_state \<Rightarrow> nat" where
  "remaining s = qkd_key_buffer_len s - qkd_key_buffer_pos s"

subsection \<open>The service\<close>

text \<open>
  The outcome of \<^verbatim>\<open>curl_easy_perform\<close>: a transport failure, or a status code and a
  body (as the C string the scanning code sees).
\<close>

datatype http_reply = CurlError | HttpReply int string

record world =
  replies :: "http_reply list"
  sent :: "(string \<times> string) list"

subsection \<open>C string functions\<close>

fun strstr :: "string \<Rightarrow> string \<Rightarrow> string option" where
  "strstr [] needle = (if needle = [] then Some [] else None)"
| "strstr (c # cs) needle =
     (if take (length needle) (c # cs) = needle then Some (c # cs) else strstr cs needle)"

definition strchr :: "string \<Rightarrow> char \<Rightarrow> string option" where
  "strchr s c = (case dropWhile (\<lambda>x. x \<noteq> c) s of [] \<Rightarrow> None | r # rs \<Rightarrow> Some (r # rs))"

definition dquote :: char where
  "dquote = CHR 0x22"

definition key_handle_name :: string where
  \<open>key_handle_name = ''"key_handle"''\<close>

definition key_buffer_name :: string where
  \<open>key_buffer_name = ''"key_buffer"''\<close>

text \<open>
  The scanning code of \<^verbatim>\<open>perform_post\<close> (lines 113-116 and 123-126): find the field
  name (12 characters), the next double quote after it, and the text up to the quote
  that follows.
\<close>

definition quoted_field :: "string \<Rightarrow> string \<Rightarrow> string option" where
  "quoted_field response_body name =
     (case strstr response_body name of
        None \<Rightarrow> None
      | Some p \<Rightarrow>
          (case strchr (drop 12 p) dquote of
             None \<Rightarrow> None
           | Some p1 \<Rightarrow>
               (let p2 = tl p1 in
                case strchr p2 dquote of
                  None \<Rightarrow> None
                | Some q \<Rightarrow> Some (take (length p2 - length q) p2))))"

text \<open>\<^verbatim>\<open>asprintf(&payload, "{\"key_handle\": \"%s\"}", qkd_key_handle)\<close>\<close>

definition handle_payload :: "string \<Rightarrow> string" where
  \<open>handle_payload h = ''{"key_handle": "'' @ h @ ''"}''\<close>

subsection \<open>\<^verbatim>\<open>perform_post\<close>\<close>

text \<open>
  The three call shapes of \<^verbatim>\<open>perform_post\<close>: no out-parameter, \<^verbatim>\<open>&qkd_key_handle\<close>, or
  \<^verbatim>\<open>&qkd_key_buffer\<close> with \<^verbatim>\<open>&qkd_key_buffer_len\<close>. The out-parameters always point at
  the engine's own variables, so the model updates the state.
\<close>

datatype out_params = NoOut | HandleOut | KeyOut

definition parse_reply :: "evp_decode \<Rightarrow> engine_state \<Rightarrow> string \<Rightarrow> out_params \<Rightarrow> engine_state" where
  "parse_reply dec s response_body outp =
     (case outp of
        HandleOut \<Rightarrow>
          (case quoted_field response_body key_handle_name of
             None \<Rightarrow> s
           | Some h \<Rightarrow> s\<lparr>qkd_key_handle := Some h\<rparr>)
      | KeyOut \<Rightarrow>
          (case quoted_field response_body key_buffer_name of
             None \<Rightarrow> s
           | Some base64_str \<Rightarrow>
               (case dec base64_str of
                  None \<Rightarrow> s\<lparr>qkd_key_buffer := None, qkd_key_buffer_len := 0\<rparr>
                | Some bs \<Rightarrow> s\<lparr>qkd_key_buffer := Some bs, qkd_key_buffer_len := length bs\<rparr>))
      | NoOut \<Rightarrow> s)"

text \<open>
  Returns the response body (\<open>None\<close> for \<^verbatim>\<open>NULL\<close>), the state and the world. A script
  that has run out answers like a failed transfer. For an empty \<^verbatim>\<open>key_buffer\<close> text the
  code calls \<^verbatim>\<open>malloc(0)\<close>, which may return \<^verbatim>\<open>NULL\<close>; the model takes the other
  branch, where the decoder runs on the empty text. Either way the length is 0 and
  \<^verbatim>\<open>template_engine_fetch_key\<close> fails with the same final state.
\<close>

definition perform_post ::
  "evp_decode \<Rightarrow> engine_state \<Rightarrow> world \<Rightarrow> string \<Rightarrow> string \<Rightarrow> out_params
     \<Rightarrow> string option \<times> engine_state \<times> world" where
  "perform_post dec s w url post_data outp =
     (let w' = \<lparr>replies = tl (replies w), sent = sent w @ [(url, post_data)]\<rparr> in
      case replies w of
        [] \<Rightarrow> (None, s, w')
      | CurlError # _ \<Rightarrow> (None, s, w')
      | HttpReply http_code body # _ \<Rightarrow>
          if http_code \<noteq> 200 then (None, s, w')
          else (Some body, parse_reply dec s body outp, w'))"

subsection \<open>Session: connect, fetch, close\<close>

text \<open>The label \<^verbatim>\<open>connect_err\<close> of \<^verbatim>\<open>template_engine_connect\<close>.\<close>

definition connect_err ::
  "evp_decode \<Rightarrow> string \<Rightarrow> engine_state \<Rightarrow> world \<Rightarrow> int \<times> engine_state \<times> world" where
  "connect_err dec url s w =
     (case qkd_key_handle s of
        None \<Rightarrow> (- 1, s, w)
      | Some h \<Rightarrow>
          (case perform_post dec s w (url @ ''/qkd_close'') (handle_payload h) NoOut of
             (close_resp, s1, w1) \<Rightarrow> (- 1, s1\<lparr>qkd_key_handle := None\<rparr>, w1)))"

definition template_engine_connect ::
  "evp_decode \<Rightarrow> engine_state \<Rightarrow> world \<Rightarrow> int \<times> engine_state \<times> world" where
  "template_engine_connect dec s w =
     (case qkd_service_url s of
        None \<Rightarrow> (- 1, s, w)
      | Some url \<Rightarrow>
          (case perform_post dec s w (url @ ''/qkd_open'') ''{}'' HandleOut of
             (open_response, s1, w1) \<Rightarrow>
               (case (open_response, qkd_key_handle s1) of
                  (Some _, Some h) \<Rightarrow>
                    (case perform_post dec s1 w1 (url @ ''/qkd_connect_blocking'')
                            (handle_payload h) NoOut of
                       (connect_response, s2, w2) \<Rightarrow>
                         if connect_response = None then connect_err dec url s2 w2
                         else (0, s2, w2))
                | _ \<Rightarrow> (- 1, s1, w1))))"

definition template_engine_fetch_key ::
  "evp_decode \<Rightarrow> engine_state \<Rightarrow> world \<Rightarrow> int \<times> engine_state \<times> world" where
  "template_engine_fetch_key dec s w =
     (case (qkd_service_url s, qkd_key_handle s) of
        (Some url, Some h) \<Rightarrow>
          (let s0 = s\<lparr>qkd_key_buffer := None, qkd_key_buffer_len := 0,
                      qkd_key_buffer_pos := 0\<rparr> in
           case perform_post dec s0 w (url @ ''/qkd_get_key'') (handle_payload h) KeyOut of
             (get_key_response, s1, w1) \<Rightarrow>
               if get_key_response = None \<or> qkd_key_buffer s1 = None
                  \<or> qkd_key_buffer_len s1 = 0
               then (- 1, s1\<lparr>qkd_key_buffer := None, qkd_key_buffer_len := 0\<rparr>, w1)
               else (0, s1\<lparr>qkd_key_buffer_pos := 0\<rparr>, w1))
      | _ \<Rightarrow> (- 1, s, w))"

definition template_engine_close ::
  "evp_decode \<Rightarrow> engine_state \<Rightarrow> world \<Rightarrow> engine_state \<times> world" where
  "template_engine_close dec s w =
     (case (case (qkd_key_handle s, qkd_service_url s) of
              (Some h, Some url) \<Rightarrow>
                (case perform_post dec s w (url @ ''/qkd_close'') (handle_payload h) NoOut of
                   (close_resp, s1, w1) \<Rightarrow> (s1\<lparr>qkd_key_handle := None\<rparr>, w1))
            | _ \<Rightarrow> (s, w)) of
        (s2, w2) \<Rightarrow>
          (s2\<lparr>qkd_key_buffer := None, qkd_key_buffer_len := 0, qkd_key_buffer_pos := 0\<rparr>,
           w2))"

subsection \<open>Configuration\<close>

text \<open>\<open>p\<close> is the command's pointer argument: \<open>None\<close> for \<^verbatim>\<open>NULL\<close>.\<close>

definition template_engine_ctrl ::
  "engine_state \<Rightarrow> int \<Rightarrow> string option \<Rightarrow> int \<times> engine_state" where
  "template_engine_ctrl s cmd p =
     (if cmd = 1 then
        (case p of
           None \<Rightarrow> (0, s)
         | Some u \<Rightarrow> (1, s\<lparr>qkd_service_url := Some u\<rparr>))
      else (0, s))"

definition template_rand_status :: "engine_state \<Rightarrow> int" where
  "template_rand_status s = (if qkd_service_url s \<noteq> None then 1 else 0)"

subsection \<open>\<^verbatim>\<open>template_rand_bytes\<close>\<close>

text \<open>
  Lines 236-242 of the loop body: when the block is used up, fetch a new one; \<open>Inl\<close>
  is the early \<^verbatim>\<open>return (bytes_provided > 0)\<close>, \<open>Inr\<close> falls through to the copy.
\<close>

definition refill_if_empty ::
  "evp_decode \<Rightarrow> engine_state \<Rightarrow> world \<Rightarrow> (engine_state \<times> world) + (engine_state \<times> world)" where
  "refill_if_empty dec s w =
     (if qkd_key_buffer_pos s \<ge> qkd_key_buffer_len s then
        (case template_engine_fetch_key dec s w of
           (rc, s1, w1) \<Rightarrow>
             if rc \<noteq> 0 then Inl (s1, w1)
             else if qkd_key_buffer_len s1 = 0 then Inl (s1, w1)
             else Inr (s1, w1))
      else Inr (s, w))"

text \<open>
  Lines 243-248: the \<open>take\<close> of the specification. Returns the bytes copied to
  \<^verbatim>\<open>buf + bytes_provided\<close>, the state with the position advanced, and \<^verbatim>\<open>bytes_to_copy\<close>.
  The loop reaches these lines with \<open>pos < len\<close> and \<open>0 < bytes_needed\<close> only, where the
  unsigned subtraction and the conversion of \<^verbatim>\<open>bytes_needed\<close> to \<^verbatim>\<open>size_t\<close> in the
  comparison are exact; outside that range (a negative \<^verbatim>\<open>bytes_needed\<close>, a position
  past the length) the C arithmetic would wrap and this definition does not follow it.
\<close>

definition copy_bytes :: "engine_state \<Rightarrow> int \<Rightarrow> byte list \<times> engine_state \<times> nat" where
  "copy_bytes s bytes_needed =
     (let avail = qkd_key_buffer_len s - qkd_key_buffer_pos s;
          bytes_to_copy = (if int avail > bytes_needed then nat bytes_needed else avail)
      in (take bytes_to_copy
            (drop (qkd_key_buffer_pos s) (case qkd_key_buffer s of None \<Rightarrow> [] | Some bs \<Rightarrow> bs)),
          s\<lparr>qkd_key_buffer_pos := qkd_key_buffer_pos s + bytes_to_copy\<rparr>,
          bytes_to_copy))"

text \<open>
  The \<^verbatim>\<open>while\<close> loop. \<open>buf\<close> is the part of the caller's buffer written so far,
  \<^verbatim>\<open>buf[0 .. bytes_provided)\<close>: every \<^verbatim>\<open>memcpy\<close> stores at offset \<^verbatim>\<open>bytes_provided\<close>. The
  result is the return value, the bytes written, the state and the world.
\<close>

function rand_loop ::
  "evp_decode \<Rightarrow> int \<Rightarrow> engine_state \<Rightarrow> world \<Rightarrow> int \<Rightarrow> byte list
     \<Rightarrow> int \<times> byte list \<times> engine_state \<times> world" where
  "rand_loop dec num s w bytes_provided buf =
     (if bytes_provided < num then
        (case refill_if_empty dec s w of
           Inl (s1, w1) \<Rightarrow> ((if bytes_provided > 0 then 1 else 0), buf, s1, w1)
         | Inr (s1, w1) \<Rightarrow>
             (case copy_bytes s1 (num - bytes_provided) of
                (chunk, s2, n) \<Rightarrow>
                  rand_loop dec num s2 w1 (bytes_provided + int n) (buf @ chunk)))
      else (1, buf, s, w))"
  by pat_completeness auto
termination
proof (relation "measure (\<lambda>(dec, num, s, w, bytes_provided, buf). nat (num - bytes_provided))")
  show "wf (measure (\<lambda>(dec, num, s, w, bytes_provided, buf). nat (num - bytes_provided)))"
    by simp
next
  fix dec :: evp_decode and num bytes_provided :: int and s s1 s2 :: engine_state
    and w w1 :: world and buf chunk :: "byte list" and n :: nat
    and x :: "engine_state \<times> world" and y :: "engine_state \<times> nat"
    and r :: "(engine_state \<times> world) + (engine_state \<times> world)"
  assume lt: "bytes_provided < num"
    and r: "refill_if_empty dec s w = Inr x" and x: "(s1, w1) = x"
    and c: "(chunk, y) = copy_bytes s1 (num - bytes_provided)" and y: "(s2, n) = y"
  from r x have avail: "qkd_key_buffer_pos s1 < qkd_key_buffer_len s1"
    by (auto simp: refill_if_empty_def template_engine_fetch_key_def perform_post_def Let_def
        split: if_splits prod.splits option.splits list.splits http_reply.splits)
  from c y avail lt have "0 < n"
    by (auto simp: copy_bytes_def Let_def split: if_splits)
  with lt show "((dec, num, s2, w1, bytes_provided + int n, buf @ chunk),
                 (dec, num, s, w, bytes_provided, buf))
        \<in> measure (\<lambda>(dec, num, s, w, bytes_provided, buf). nat (num - bytes_provided))"
    by simp
qed

definition template_rand_bytes ::
  "evp_decode \<Rightarrow> engine_state \<Rightarrow> world \<Rightarrow> int
     \<Rightarrow> int \<times> byte list \<times> engine_state \<times> world" where
  "template_rand_bytes dec s w num =
     (if qkd_key_handle s = None then
        (case template_engine_connect dec s w of
           (rc, s1, w1) \<Rightarrow>
             if rc \<noteq> 0 then (0, [], s1, w1) else rand_loop dec num s1 w1 0 [])
      else rand_loop dec num s w 0 [])"

subsection \<open>Example service\<close>

text \<open>
  The values of \<^verbatim>\<open>EVP_DecodeBlock\<close> on the Base64 texts of the examples below (\<^verbatim>\<open>AQID\<close>
  is the bytes 1 2 3, \<^verbatim>\<open>BAUG\<close> the bytes 4 5 6, the empty text decodes to nothing);
  no other text is decoded in the examples.
\<close>

definition decode_examples :: evp_decode where
  "decode_examples base64_str =
     (if base64_str = ''AQID'' then Some [1, 2, 3]
      else if base64_str = ''BAUG'' then Some [4, 5, 6]
      else if base64_str = [] then Some []
      else None)"

definition open_body :: string where
  \<open>open_body = ''{"key_handle": "H1"}''\<close>

definition key_body :: "string \<Rightarrow> string" where
  \<open>key_body base64_str = ''{"key_buffer": "'' @ base64_str @ ''"}''\<close>

definition configured :: engine_state where
  "configured = initial_state\<lparr>qkd_service_url := Some ''http://kms''\<rparr>"

definition connected :: engine_state where
  "connected = configured\<lparr>qkd_key_handle := Some ''H1''\<rparr>"

definition script :: "http_reply list \<Rightarrow> world" where
  "script rs = \<lparr>replies = rs, sent = []\<rparr>"

text \<open>
  A connected session whose block of three bytes is used up, and one that has handed out
  the first byte of it.
\<close>

definition exhausted :: engine_state where
  "exhausted = connected\<lparr>qkd_key_buffer := Some [1, 2, 3], qkd_key_buffer_len := 3,
                         qkd_key_buffer_pos := 3\<rparr>"

definition half_read :: engine_state where
  "half_read = connected\<lparr>qkd_key_buffer := Some [1, 2, 3], qkd_key_buffer_len := 3,
                         qkd_key_buffer_pos := 1\<rparr>"

text \<open>
  A service that opens, confirms, serves one block, fails the next request with status
  500 and then serves again; the requests the engine sends it for five bytes; and a
  service that serves two blocks.
\<close>

definition partial_script :: world where
  "partial_script =
     script [HttpReply 200 open_body, HttpReply 200 ''{}'', HttpReply 200 (key_body ''AQID''),
             HttpReply 500 [], HttpReply 200 (key_body ''BAUG'')]"

definition partial_sent :: "(string \<times> string) list" where
  "partial_sent =
     [(''http://kms/qkd_open'', ''{}''),
      (''http://kms/qkd_connect_blocking'', handle_payload ''H1''),
      (''http://kms/qkd_get_key'', handle_payload ''H1''),
      (''http://kms/qkd_get_key'', handle_payload ''H1'')]"

definition two_blocks :: world where
  "two_blocks =
     script [HttpReply 200 open_body, HttpReply 200 ''{}'', HttpReply 200 (key_body ''AQID''),
             HttpReply 200 (key_body ''BAUG'')]"

section \<open>Properties\<close>

subsection \<open>\<^verbatim>\<open>perform_post\<close>\<close>

lemma perform_post_world:
  "perform_post dec s w url post_data outp = (r, s1, w1) \<Longrightarrow>
     w1 = \<lparr>replies = tl (replies w), sent = sent w @ [(url, post_data)]\<rparr>"
  by (auto simp: perform_post_def Let_def split: list.splits http_reply.splits if_splits)

lemma perform_post_NoOut:
  "perform_post dec s w url post_data NoOut = (r, s1, w1) \<Longrightarrow> s1 = s"
  by (auto simp: perform_post_def parse_reply_def Let_def
      split: list.splits http_reply.splits if_splits)

lemma perform_post_None:
  "perform_post dec s w url post_data outp = (None, s1, w1) \<Longrightarrow> s1 = s"
  by (auto simp: perform_post_def Let_def split: list.splits http_reply.splits if_splits)

subsection \<open>Connecting\<close>

lemma connect_err_result:
  "qkd_key_handle s = Some h \<Longrightarrow>
     connect_err dec url s w =
       (- 1, s\<lparr>qkd_key_handle := None\<rparr>,
        \<lparr>replies = tl (replies w), sent = sent w @ [(url @ ''/qkd_close'', handle_payload h)]\<rparr>)"
  by (auto simp: connect_err_def split: prod.splits
      dest: perform_post_world perform_post_NoOut)

text \<open>
  Claim C5. When the confirmation request \<^verbatim>\<open>/qkd_connect_blocking\<close> fails after an open
  that produced the handle \<open>h\<close>, the connect has sent exactly three requests: the open,
  the confirmation carrying \<open>h\<close> in its \<^verbatim>\<open>key_handle\<close> field, and one \<^verbatim>\<open>/qkd_close\<close> request
  carrying the same \<open>h\<close>. It then sets the handle to \<^verbatim>\<open>NULL\<close> and returns \<open>-1\<close>. The
  reply to the close request (the third of the script) is consumed and has no
  influence on the result. The request bodies are written out, as \<^verbatim>\<open>asprintf\<close> builds
  them.
\<close>

theorem confirm_failure_closes:
  assumes "qkd_service_url s = Some u"
    and "perform_post dec s w (u @ ''/qkd_open'') ''{}'' HandleOut = (Some body, s1, w1)"
    and "qkd_key_handle s1 = Some h"
    and \<open>perform_post dec s1 w1 (u @ ''/qkd_connect_blocking'')
            (''{"key_handle": "'' @ h @ ''"}'') NoOut
           = (None, s2, w2)\<close>
  shows \<open>template_engine_connect dec s w =
           (- 1, s1\<lparr>qkd_key_handle := None\<rparr>,
            \<lparr>replies = tl (tl (tl (replies w))),
             sent = sent w @
               [(u @ ''/qkd_open'', ''{}''),
                (u @ ''/qkd_connect_blocking'', ''{"key_handle": "'' @ h @ ''"}''),
                (u @ ''/qkd_close'', ''{"key_handle": "'' @ h @ ''"}'')]\<rparr>)\<close>
proof -
  from assms(4) have s2: "s2 = s1" by (rule perform_post_None)
  from assms(2) have w1: "w1 = \<lparr>replies = tl (replies w),
      sent = sent w @ [(u @ ''/qkd_open'', ''{}'')]\<rparr>"
    by (rule perform_post_world)
  from assms(4) have w2: \<open>w2 = \<lparr>replies = tl (replies w1),
      sent = sent w1 @ [(u @ ''/qkd_connect_blocking'', ''{"key_handle": "'' @ h @ ''"}'')]\<rparr>\<close>
    by (rule perform_post_world)
  from assms s2 have "template_engine_connect dec s w =
           (- 1, s1\<lparr>qkd_key_handle := None\<rparr>,
            \<lparr>replies = tl (replies w2),
             sent = sent w2 @ [(u @ ''/qkd_close'', handle_payload h)]\<rparr>)"
    by (simp add: template_engine_connect_def connect_err_result handle_payload_def)
  with w1 w2 show ?thesis
    by (simp add: handle_payload_def)
qed

theorem confirm_failure_closes_witness:
  \<open>qkd_service_url configured = Some ''http://kms'' \<and>
   perform_post decode_examples configured
       (script [HttpReply 200 open_body, CurlError, HttpReply 500 []])
       (''http://kms'' @ ''/qkd_open'') ''{}'' HandleOut
     = (Some open_body, connected,
        \<lparr>replies = [CurlError, HttpReply 500 []],
         sent = [(''http://kms/qkd_open'', ''{}'')]\<rparr>) \<and>
   qkd_key_handle connected = Some ''H1'' \<and>
   perform_post decode_examples connected
       \<lparr>replies = [CurlError, HttpReply 500 []], sent = [(''http://kms/qkd_open'', ''{}'')]\<rparr>
       (''http://kms'' @ ''/qkd_connect_blocking'') (''{"key_handle": "'' @ ''H1'' @ ''"}'') NoOut
     = (None, connected,
        \<lparr>replies = [HttpReply 500 []],
         sent = [(''http://kms/qkd_open'', ''{}''),
                 (''http://kms/qkd_connect_blocking'', ''{"key_handle": "H1"}'')]\<rparr>) \<and>
   template_engine_connect decode_examples configured
       (script [HttpReply 200 open_body, CurlError, HttpReply 500 []])
     = (- 1, configured,
        \<lparr>replies = [],
         sent = [(''http://kms/qkd_open'', ''{}''),
                 (''http://kms/qkd_connect_blocking'', ''{"key_handle": "H1"}''),
                 (''http://kms/qkd_close'', ''{"key_handle": "H1"}'')]\<rparr>)\<close>
proof -
  have h1: "qkd_service_url configured = Some ''http://kms''"
    by code_simp
  have h2: "perform_post decode_examples configured
       (script [HttpReply 200 open_body, CurlError, HttpReply 500 []])
       (''http://kms'' @ ''/qkd_open'') ''{}'' HandleOut
     = (Some open_body, connected,
        \<lparr>replies = [CurlError, HttpReply 500 []],
         sent = [(''http://kms/qkd_open'', ''{}'')]\<rparr>)"
    by code_simp
  have h3: "qkd_key_handle connected = Some ''H1''"
    by code_simp
  have h4: \<open>perform_post decode_examples connected
       \<lparr>replies = [CurlError, HttpReply 500 []], sent = [(''http://kms/qkd_open'', ''{}'')]\<rparr>
       (''http://kms'' @ ''/qkd_connect_blocking'') (''{"key_handle": "'' @ ''H1'' @ ''"}'') NoOut
     = (None, connected,
        \<lparr>replies = [HttpReply 500 []],
         sent = [(''http://kms/qkd_open'', ''{}''),
                 (''http://kms/qkd_connect_blocking'', ''{"key_handle": "H1"}'')]\<rparr>)\<close>
    by code_simp
  have e: "connected\<lparr>qkd_key_handle := None\<rparr> = configured"
    by code_simp
  have r: "replies (script [HttpReply 200 open_body, CurlError, HttpReply 500 []])
             = [HttpReply 200 open_body, CurlError, HttpReply 500 []]"
    and s: "sent (script [HttpReply 200 open_body, CurlError, HttpReply 500 []]) = []"
    by (simp_all add: script_def)
  from confirm_failure_closes [OF h1 h2 h3 h4] e r s
  have \<open>template_engine_connect decode_examples configured
       (script [HttpReply 200 open_body, CurlError, HttpReply 500 []])
     = (- 1, configured,
        \<lparr>replies = [],
         sent = [(''http://kms/qkd_open'', ''{}''),
                 (''http://kms/qkd_connect_blocking'', ''{"key_handle": "H1"}''),
                 (''http://kms/qkd_close'', ''{"key_handle": "H1"}'')]\<rparr>)\<close>
    by simp
  with h1 h2 h3 h4 show ?thesis by blast
qed




text \<open>
  Claim C10. Called with \<open>num = 0\<close> and no handle, \<^verbatim>\<open>template_rand_bytes\<close> first runs
  \<^verbatim>\<open>template_engine_connect\<close> (open and confirmation) and only then looks at the count:
  it returns 0 when the connect fails and 1 when it succeeds, in both cases with no
  byte written and with the state and the world the connect left.
\<close>

theorem rand_bytes_zero_connects:
  assumes "qkd_key_handle s = None"
  shows "template_rand_bytes dec s w 0 =
           (case template_engine_connect dec s w of
              (rc, s1, w1) \<Rightarrow> (if rc = 0 then 1 else 0, [], s1, w1))"
  using assms by (simp add: template_rand_bytes_def split: prod.splits)

theorem rand_bytes_zero_connects_witness:
  "qkd_key_handle configured = None \<and>
   template_rand_bytes decode_examples configured (script [CurlError]) 0
     = (0, [], configured, \<lparr>replies = [], sent = [(''http://kms/qkd_open'', ''{}'')]\<rparr>) \<and>
   template_rand_bytes decode_examples configured
       (script [HttpReply 200 open_body, HttpReply 200 ''{}'']) 0
     = (1, [], connected,
        \<lparr>replies = [],
         sent = [(''http://kms/qkd_open'', ''{}''),
                 (''http://kms/qkd_connect_blocking'', handle_payload ''H1'')]\<rparr>)"
proof -
  have h: "qkd_key_handle configured = None"
    by code_simp
  have c1: "template_engine_connect decode_examples configured (script [CurlError])
     = (- 1, configured, \<lparr>replies = [], sent = [(''http://kms/qkd_open'', ''{}'')]\<rparr>)"
    by code_simp
  have c2: "template_engine_connect decode_examples configured
       (script [HttpReply 200 open_body, HttpReply 200 ''{}''])
     = (0, connected,
        \<lparr>replies = [],
         sent = [(''http://kms/qkd_open'', ''{}''),
                 (''http://kms/qkd_connect_blocking'', handle_payload ''H1'')]\<rparr>)"
    by code_simp
  show ?thesis
    using h rand_bytes_zero_connects [OF h, of decode_examples "script [CurlError]"]
      rand_bytes_zero_connects [OF h, of decode_examples
        "script [HttpReply 200 open_body, HttpReply 200 ''{}'']"]
    by (simp add: c1 c2)
qed

subsection \<open>Fetching a key block\<close>

text \<open>
  Claim C8. A fetch on a connected session whose reply is a 200 with a
  \<^verbatim>\<open>key_buffer\<close> field that decodes to no bytes returns \<open>-1\<close> and leaves no block
  installed: the buffer is \<^verbatim>\<open>NULL\<close> with length and position 0.
\<close>

theorem empty_block_rejected:
  assumes "qkd_service_url s = Some u" and "qkd_key_handle s = Some h"
    and "replies w = HttpReply 200 body # rest"
    and "quoted_field body key_buffer_name = Some base64_str"
    and "dec base64_str = Some []"
  shows "template_engine_fetch_key dec s w =
           (- 1,
            s\<lparr>qkd_key_buffer := None, qkd_key_buffer_len := 0, qkd_key_buffer_pos := 0\<rparr>,
            \<lparr>replies = rest, sent = sent w @ [(u @ ''/qkd_get_key'', handle_payload h)]\<rparr>)"
  using assms
  by (simp add: template_engine_fetch_key_def perform_post_def parse_reply_def Let_def)

theorem empty_block_rejected_witness:
  "qkd_service_url connected = Some ''http://kms'' \<and>
   qkd_key_handle connected = Some ''H1'' \<and>
   replies (script [HttpReply 200 (key_body [])]) = HttpReply 200 (key_body []) # [] \<and>
   quoted_field (key_body []) key_buffer_name = Some [] \<and>
   decode_examples [] = Some [] \<and>
   template_engine_fetch_key decode_examples connected (script [HttpReply 200 (key_body [])])
     = (- 1, connected,
        \<lparr>replies = [], sent = [(''http://kms/qkd_get_key'', handle_payload ''H1'')]\<rparr>)"
proof -
  have h1: "qkd_service_url connected = Some ''http://kms''"
    by code_simp
  have h2: "qkd_key_handle connected = Some ''H1''"
    by code_simp
  have h3: "replies (script [HttpReply 200 (key_body [])]) = HttpReply 200 (key_body []) # []"
    by (simp add: script_def)
  have h4: "quoted_field (key_body []) key_buffer_name = Some []"
    by code_simp
  have h5: "decode_examples [] = Some []"
    by code_simp
  have e: "connected\<lparr>qkd_key_buffer := None, qkd_key_buffer_len := 0, qkd_key_buffer_pos := 0\<rparr>
             = connected"
    by code_simp
  have s: "sent (script [HttpReply 200 (key_body [])]) = []"
    by (simp add: script_def)
  from empty_block_rejected [where dec = decode_examples, OF h1 h2 h3 h4 h5] e s
  have "template_engine_fetch_key decode_examples connected
          (script [HttpReply 200 (key_body [])])
     = (- 1, connected,
        \<lparr>replies = [], sent = [(''http://kms/qkd_get_key'', handle_payload ''H1'')]\<rparr>)"
    by simp
  with h1 h2 h3 h4 h5 show ?thesis by blast
qed

lemma fetch_key_world:
  "qkd_service_url s = Some u \<Longrightarrow> qkd_key_handle s = Some h \<Longrightarrow>
     template_engine_fetch_key dec s w = (rc, s', w') \<Longrightarrow>
     w' = \<lparr>replies = tl (replies w),
           sent = sent w @ [(u @ ''/qkd_get_key'', handle_payload h)]\<rparr>"
  by (auto simp: template_engine_fetch_key_def Let_def
      split: prod.splits if_splits dest!: perform_post_world)

text \<open>
  The specification's claim C2 says that a refill attempt with an empty or failed block
  leaves the previous block and read position unchanged. The code frees the old block
  and resets length and position before it sends the request (line 186): after a fetch
  that got an empty block, the used-up block of three bytes is gone and the position
  is 0.
\<close>

theorem refill_unchanged_counterexample:
  "template_engine_fetch_key decode_examples exhausted (script [HttpReply 200 (key_body [])])
     = (- 1, connected,
        \<lparr>replies = [], sent = [(''http://kms/qkd_get_key'', handle_payload ''H1'')]\<rparr>)
   \<and> qkd_key_buffer exhausted = Some [1, 2, 3] \<and> qkd_key_buffer connected = None
   \<and> qkd_key_buffer_pos exhausted = 3 \<and> qkd_key_buffer_pos connected = 0"
  by code_simp

text \<open>
  Claim C2, as amended. On a connected session a fetch sends exactly one request, to
  \<^verbatim>\<open>/qkd_get_key\<close> with the handle in its body, and consumes one reply. Either it
  returns 0, and then the reply was a 200 whose \<^verbatim>\<open>key_buffer\<close> field decodes to a block
  that is not empty, installed whole with the position at 0; or it returns \<open>-1\<close> and
  installs nothing. The failed fetch (empty block, failed request, missing or
  undecodable field) does not keep the previous block: it leaves the key buffer empty,
  \<^verbatim>\<open>NULL\<close> with length and position 0. When there is no URL or no handle the fetch
  returns \<open>-1\<close>, sends nothing and leaves state and world as they were.
\<close>

theorem fetch_key_all_or_cleared:
  assumes "template_engine_fetch_key dec s w = (rc, s', w')"
  shows \<open>(case (qkd_service_url s, qkd_key_handle s) of
            (Some u, Some h) \<Rightarrow>
              w' = \<lparr>replies = tl (replies w),
                    sent = sent w @ [(u @ ''/qkd_get_key'', ''{"key_handle": "'' @ h @ ''"}'')]\<rparr>
              \<and> ((rc = 0 \<and>
                   (\<exists>body rest base64_str bs.
                      replies w = HttpReply 200 body # rest \<and>
                      quoted_field body key_buffer_name = Some base64_str \<and>
                      dec base64_str = Some bs \<and> bs \<noteq> [] \<and>
                      s' = s\<lparr>qkd_key_buffer := Some bs, qkd_key_buffer_len := length bs,
                              qkd_key_buffer_pos := 0\<rparr>))
                 \<or> (rc = - 1 \<and>
                     s' = s\<lparr>qkd_key_buffer := None, qkd_key_buffer_len := 0,
                             qkd_key_buffer_pos := 0\<rparr>))
          | _ \<Rightarrow> rc = - 1 \<and> s' = s \<and> w' = w)\<close>
proof (cases "qkd_service_url s")
  case None
  with assms show ?thesis
    by (auto simp: template_engine_fetch_key_def)
next
  case u: (Some u)
  show ?thesis
  proof (cases "qkd_key_handle s")
    case None
    with assms u show ?thesis
      by (auto simp: template_engine_fetch_key_def)
  next
    case h: (Some h)
    from fetch_key_world [OF u h assms]
    have w': \<open>w' = \<lparr>replies = tl (replies w),
        sent = sent w @ [(u @ ''/qkd_get_key'', ''{"key_handle": "'' @ h @ ''"}'')]\<rparr>\<close>
      by (simp add: handle_payload_def)
    have "(rc = 0 \<and>
            (\<exists>body rest base64_str bs.
               replies w = HttpReply 200 body # rest \<and>
               quoted_field body key_buffer_name = Some base64_str \<and>
               dec base64_str = Some bs \<and> bs \<noteq> [] \<and>
               s' = s\<lparr>qkd_key_buffer := Some bs, qkd_key_buffer_len := length bs,
                       qkd_key_buffer_pos := 0\<rparr>))
          \<or> (rc = - 1 \<and>
              s' = s\<lparr>qkd_key_buffer := None, qkd_key_buffer_len := 0,
                      qkd_key_buffer_pos := 0\<rparr>)"
    proof (cases "replies w")
      case Nil
      with assms u h show ?thesis
        by (auto simp: template_engine_fetch_key_def perform_post_def Let_def)
    next
      case (Cons reply rest)
      show ?thesis
      proof (cases reply)
        case CurlError
        with assms u h Cons show ?thesis
          by (auto simp: template_engine_fetch_key_def perform_post_def Let_def)
      next
        case (HttpReply code body)
        show ?thesis
        proof (cases "code = 200")
          case False
          with assms u h Cons HttpReply show ?thesis
            by (auto simp: template_engine_fetch_key_def perform_post_def Let_def)
        next
          case ok: True
          show ?thesis
          proof (cases "quoted_field body key_buffer_name")
            case None
            with assms u h Cons HttpReply ok show ?thesis
              by (auto simp: template_engine_fetch_key_def perform_post_def parse_reply_def
                  Let_def)
          next
            case q: (Some base64_str)
            show ?thesis
            proof (cases "dec base64_str")
              case None
              with assms u h Cons HttpReply ok q show ?thesis
                by (auto simp: template_engine_fetch_key_def perform_post_def parse_reply_def
                    Let_def)
            next
              case (Some bs)
              with assms u h Cons HttpReply ok q show ?thesis
                by (cases "bs = []")
                  (auto simp: template_engine_fetch_key_def perform_post_def parse_reply_def
                    Let_def)
            qed
          qed
        qed
      qed
    qed
    with u h w' show ?thesis
      by simp
  qed
qed

theorem fetch_key_all_or_cleared_witness:
  \<open>template_engine_fetch_key decode_examples exhausted (script [HttpReply 500 []])
     = (- 1, connected,
        \<lparr>replies = [], sent = [(''http://kms/qkd_get_key'', ''{"key_handle": "H1"}'')]\<rparr>)
   \<and> connected = exhausted\<lparr>qkd_key_buffer := None, qkd_key_buffer_len := 0,
                             qkd_key_buffer_pos := 0\<rparr>
   \<and> template_engine_fetch_key decode_examples (exhausted\<lparr>qkd_key_handle := None\<rparr>)
         (script [HttpReply 200 (key_body ''AQID'')])
     = (- 1, exhausted\<lparr>qkd_key_handle := None\<rparr>, script [HttpReply 200 (key_body ''AQID'')])\<close>
proof -
  have h1: \<open>template_engine_fetch_key decode_examples exhausted (script [HttpReply 500 []])
     = (- 1, connected,
        \<lparr>replies = [], sent = [(''http://kms/qkd_get_key'', ''{"key_handle": "H1"}'')]\<rparr>)\<close>
    by code_simp
  have c: "qkd_service_url exhausted = Some ''http://kms''"
      "qkd_key_handle exhausted = Some ''H1''"
    by code_simp+
  obtain rc s' w' where
    h2: "template_engine_fetch_key decode_examples (exhausted\<lparr>qkd_key_handle := None\<rparr>)
         (script [HttpReply 200 (key_body ''AQID'')]) = (rc, s', w')"
    by (cases "template_engine_fetch_key decode_examples (exhausted\<lparr>qkd_key_handle := None\<rparr>)
         (script [HttpReply 200 (key_body ''AQID'')])")
  from fetch_key_all_or_cleared [OF h2]
  have "rc = - 1 \<and> s' = exhausted\<lparr>qkd_key_handle := None\<rparr>
      \<and> w' = script [HttpReply 200 (key_body ''AQID'')]"
    by (simp split: option.splits)
  with h2 have n: "template_engine_fetch_key decode_examples (exhausted\<lparr>qkd_key_handle := None\<rparr>)
         (script [HttpReply 200 (key_body ''AQID'')])
     = (- 1, exhausted\<lparr>qkd_key_handle := None\<rparr>, script [HttpReply 200 (key_body ''AQID'')])"
    by simp
  from fetch_key_all_or_cleared [OF h1] c have "connected
      = exhausted\<lparr>qkd_key_buffer := None, qkd_key_buffer_len := 0, qkd_key_buffer_pos := 0\<rparr>"
    by simp
  with h1 n show ?thesis
    by blast
qed

text \<open>
  The specification's claim C3 says that a session keeps the endpoint it was opened
  with. The code reads \<^verbatim>\<open>qkd_service_url\<close> at every fetch (line 188): the same request
  for one byte on the same connected session goes to another URL once the control
  command 1 has replaced the URL.
\<close>

theorem set_url_captured_counterexample:
  "template_rand_bytes decode_examples connected
       (script [HttpReply 200 (key_body ''AQID'')]) 1
     = (1, [1], half_read,
        \<lparr>replies = [], sent = [(''http://kms/qkd_get_key'', handle_payload ''H1'')]\<rparr>)
   \<and> template_rand_bytes decode_examples
         (snd (template_engine_ctrl connected 1 (Some ''http://other'')))
         (script [HttpReply 200 (key_body ''AQID'')]) 1
     = (1, [1], half_read\<lparr>qkd_service_url := Some ''http://other''\<rparr>,
        \<lparr>replies = [], sent = [(''http://other/qkd_get_key'', handle_payload ''H1'')]\<rparr>)
   \<and> (''http://kms/qkd_get_key'', handle_payload ''H1'')
       \<noteq> (''http://other/qkd_get_key'', handle_payload ''H1'')"
  by code_simp

text \<open>
  Claim C3, as amended. The control command 1 (set URL) on a session that has a handle
  \<open>h\<close> succeeds, stores the new URL and keeps the handle; the next fetch sends its one
  request to the new URL followed by \<^verbatim>\<open>/qkd_get_key\<close>, with the body
  \<^verbatim>\<open>{"key_handle": "h"}\<close> for that same handle. The handle is what the session keeps from
  its open, the endpoint is not.
\<close>

theorem set_url_redirects_fetch:
  assumes "qkd_key_handle s = Some h"
    and "template_engine_ctrl s 1 (Some u') = (r, s1)"
    and "template_engine_fetch_key dec s1 w = (rc, s2, w2)"
  shows \<open>r = 1 \<and> qkd_key_handle s1 = Some h \<and> qkd_service_url s1 = Some u' \<and>
         w2 = \<lparr>replies = tl (replies w),
               sent = sent w @ [(u' @ ''/qkd_get_key'', ''{"key_handle": "'' @ h @ ''"}'')]\<rparr>\<close>
  using assms
  by (auto simp: template_engine_ctrl_def handle_payload_def dest!: fetch_key_world [rotated 2])

theorem set_url_redirects_fetch_witness:
  \<open>qkd_key_handle connected = Some ''H1'' \<and>
   template_engine_ctrl connected 1 (Some ''http://other'')
     = (1, connected\<lparr>qkd_service_url := Some ''http://other''\<rparr>) \<and>
   template_engine_fetch_key decode_examples
       (connected\<lparr>qkd_service_url := Some ''http://other''\<rparr>)
       (script [HttpReply 200 (key_body ''AQID'')])
     = (0, connected\<lparr>qkd_service_url := Some ''http://other'',
                       qkd_key_buffer := Some [1, 2, 3], qkd_key_buffer_len := 3\<rparr>,
        \<lparr>replies = [],
         sent = [(''http://other/qkd_get_key'', ''{"key_handle": "H1"}'')]\<rparr>) \<and>
   \<lparr>replies = [], sent = [(''http://other/qkd_get_key'', ''{"key_handle": "H1"}'')]\<rparr>
     = \<lparr>replies = tl (replies (script [HttpReply 200 (key_body ''AQID'')])),
        sent = sent (script [HttpReply 200 (key_body ''AQID'')])
               @ [(''http://other'' @ ''/qkd_get_key'',
                   ''{"key_handle": "'' @ ''H1'' @ ''"}'')]\<rparr>\<close>
proof -
  have h1: "qkd_key_handle connected = Some ''H1''" by code_simp
  have h2: "template_engine_ctrl connected 1 (Some ''http://other'')
     = (1, connected\<lparr>qkd_service_url := Some ''http://other''\<rparr>)"
    by code_simp
  have h3: \<open>template_engine_fetch_key decode_examples
       (connected\<lparr>qkd_service_url := Some ''http://other''\<rparr>)
       (script [HttpReply 200 (key_body ''AQID'')])
     = (0, connected\<lparr>qkd_service_url := Some ''http://other'',
                       qkd_key_buffer := Some [1, 2, 3], qkd_key_buffer_len := 3\<rparr>,
        \<lparr>replies = [],
         sent = [(''http://other/qkd_get_key'', ''{"key_handle": "H1"}'')]\<rparr>)\<close>
    by code_simp
  from set_url_redirects_fetch [OF h1 h2 h3] h1 h2 h3 show ?thesis
    by blast
qed

subsection \<open>Copying out of the block\<close>

lemma copy_bytes_eq:
  "copy_bytes s k = (c, s2, n) \<longleftrightarrow>
     n = (if int (qkd_key_buffer_len s - qkd_key_buffer_pos s) > k then nat k
          else qkd_key_buffer_len s - qkd_key_buffer_pos s)
     \<and> c = take n (drop (qkd_key_buffer_pos s)
                      (case qkd_key_buffer s of None \<Rightarrow> [] | Some bs \<Rightarrow> bs))
     \<and> s2 = s\<lparr>qkd_key_buffer_pos := qkd_key_buffer_pos s + n\<rparr>"
  by (auto simp: copy_bytes_def Let_def)

text \<open>
  Claim C7. On a state satisfying the buffer invariant, the copy step for \<open>k \<ge> 0\<close>
  bytes returns exactly \<open>min k remaining\<close> bytes, taken from the block at the current
  position, advances the position by that number and changes nothing else; so
  \<open>remaining\<close> drops by the number of bytes returned, which never exceeds it. The step
  does not take or return the world: it sends no request.
\<close>

theorem take_is_slice:
  assumes "buffer_ok s" and "0 \<le> k" and "copy_bytes s k = (chunk, s', n)"
  shows "chunk = take (min (nat k) (remaining s))
                   (drop (qkd_key_buffer_pos s)
                      (case qkd_key_buffer s of None \<Rightarrow> [] | Some bs \<Rightarrow> bs))
       \<and> length chunk = min (nat k) (remaining s)
       \<and> n = length chunk
       \<and> s' = s\<lparr>qkd_key_buffer_pos := qkd_key_buffer_pos s + length chunk\<rparr>
       \<and> remaining s' = remaining s - length chunk
       \<and> length chunk \<le> remaining s"
  using assms
  by (auto simp: copy_bytes_def buffer_ok_def remaining_def Let_def min_def
      split: option.splits if_splits)

theorem take_is_slice_witness:
  "buffer_ok half_read \<and> (0::int) \<le> 5 \<and>
   copy_bytes half_read 5
     = ([2, 3], half_read\<lparr>qkd_key_buffer_pos := 1 + 2\<rparr>, 2) \<and>
   length [2, 3 :: byte] = min (nat 5) (remaining half_read) \<and>
   remaining (half_read\<lparr>qkd_key_buffer_pos := 1 + 2\<rparr>)
     = remaining half_read - length [2, 3 :: byte] \<and>
   length [2, 3 :: byte] \<le> remaining half_read"
proof -
  have h1: "buffer_ok half_read" by code_simp
  have h2: "(0::int) \<le> 5" by simp
  have h3: "copy_bytes half_read 5 = ([2, 3], half_read\<lparr>qkd_key_buffer_pos := 1 + 2\<rparr>, 2)"
    by code_simp
  from take_is_slice [OF h1 h2 h3] h1 h2 h3 show ?thesis
    by blast
qed

lemma copy_bytes_same:
  "int (qkd_key_buffer_len s - qkd_key_buffer_pos s) \<le> k \<Longrightarrow> k \<le> k' \<Longrightarrow>
     copy_bytes s k' = copy_bytes s k"
  by (simp add: copy_bytes_def Let_def)

lemma copy_bytes_split:
  assumes "0 \<le> k1" and "0 \<le> k2"
    and "k1 < int (qkd_key_buffer_len s - qkd_key_buffer_pos s)"
    and "copy_bytes s k1 = (c1, s2, n1)"
    and "copy_bytes s2 k2 = (c2, s3, n2)"
  shows "copy_bytes s (k1 + k2) = (c1 @ c2, s3, n1 + n2)"
    and "int n1 = k1"
    and "qkd_key_buffer_pos s2 < qkd_key_buffer_len s2"
proof -
  let ?xs = "case qkd_key_buffer s of None \<Rightarrow> [] | Some bs \<Rightarrow> bs"
  let ?p = "qkd_key_buffer_pos s"
  from assms(1,3,4) have n1: "n1 = nat k1" and c1: "c1 = take n1 (drop ?p ?xs)"
    and s2: "s2 = s\<lparr>qkd_key_buffer_pos := ?p + n1\<rparr>"
    by (simp_all add: copy_bytes_eq)
  from n1 assms(1) show "int n1 = k1" by simp
  from s2 n1 assms(1,3) show "qkd_key_buffer_pos s2 < qkd_key_buffer_len s2"
    by simp
  from assms(5) s2
  have n2: "n2 = (if int (qkd_key_buffer_len s - (?p + n1)) > k2 then nat k2
                  else qkd_key_buffer_len s - (?p + n1))"
    and c2: "c2 = take n2 (drop (?p + n1) ?xs)"
    and s3: "s3 = s\<lparr>qkd_key_buffer_pos := ?p + n1 + n2\<rparr>"
    by (simp_all add: copy_bytes_eq)
  from n1 n2 assms(1,2,3)
  have n: "(if int (qkd_key_buffer_len s - ?p) > k1 + k2 then nat (k1 + k2)
            else qkd_key_buffer_len s - ?p) = n1 + n2"
    by (auto simp: nat_add_distrib)
  have "take (n1 + n2) (drop ?p ?xs) = c1 @ c2"
    by (simp add: c1 c2 take_add add.commute)
  with n s3 show "copy_bytes s (k1 + k2) = (c1 @ c2, s3, n1 + n2)"
    by (simp add: copy_bytes_eq add.assoc)
qed

lemma copy_bytes_facts:
  assumes "copy_bytes s k = (chunk, s2, n)"
  shows "qkd_key_handle s2 = qkd_key_handle s"
    and "qkd_service_url s2 = qkd_service_url s"
    and "buffer_ok s \<Longrightarrow> buffer_ok s2 \<and> length chunk = n"
    and "qkd_key_buffer_pos s < qkd_key_buffer_len s \<Longrightarrow> 0 < k \<Longrightarrow> 0 < n \<and> int n \<le> k"
  using assms
  by (auto simp: copy_bytes_def buffer_ok_def Let_def split: if_splits option.splits)

subsection \<open>Facts about fetch and connect used by the loop\<close>

lemma perform_post_KeyOut:
  assumes "perform_post dec s w url post_data KeyOut = (r, s1, w1)"
    and "qkd_key_buffer s = None" and "qkd_key_buffer_len s = 0"
  shows "qkd_key_handle s1 = qkd_key_handle s \<and> qkd_service_url s1 = qkd_service_url s
       \<and> qkd_key_buffer_pos s1 = qkd_key_buffer_pos s
       \<and> length (sent w1) = length (sent w) + 1
       \<and> (case qkd_key_buffer s1 of
            None \<Rightarrow> qkd_key_buffer_len s1 = 0
          | Some bs \<Rightarrow> qkd_key_buffer_len s1 = length bs)"
  using assms
  by (auto simp: perform_post_def parse_reply_def Let_def
      split: option.splits list.splits http_reply.splits if_splits)

lemma fetch_key_facts:
  assumes "template_engine_fetch_key dec s w = (rc, s1, w1)"
  shows "qkd_key_handle s1 = qkd_key_handle s"
    and "qkd_service_url s1 = qkd_service_url s"
    and "buffer_ok s \<Longrightarrow> buffer_ok s1"
    and "length (sent w1) \<le> length (sent w) + 1"
    and "rc = 0 \<Longrightarrow> qkd_key_buffer_pos s1 = 0 \<and> 0 < qkd_key_buffer_len s1 \<and> buffer_ok s1"
    and "rc = 0 \<or> rc = - 1"
  using assms
  by (auto simp: template_engine_fetch_key_def Let_def buffer_ok_def
      split: option.splits prod.splits if_splits
      dest!: perform_post_KeyOut)

lemma refill_Inr_facts:
  assumes "refill_if_empty dec s w = Inr (s1, w1)"
  shows "qkd_key_handle s1 = qkd_key_handle s"
    and "qkd_service_url s1 = qkd_service_url s"
    and "buffer_ok s \<Longrightarrow> buffer_ok s1"
    and "length (sent w1) \<le> length (sent w) + 1"
    and "qkd_key_buffer_pos s1 < qkd_key_buffer_len s1"
  using assms
  by (auto simp: refill_if_empty_def split: if_splits prod.splits dest: fetch_key_facts)

lemma refill_Inl_fetch:
  assumes "refill_if_empty dec s w = Inl (s1, w1)"
  shows "template_engine_fetch_key dec s w = (- 1, s1, w1)"
proof -
  obtain rc s2 w2 where f: "template_engine_fetch_key dec s w = (rc, s2, w2)"
    by (cases "template_engine_fetch_key dec s w")
  with assms fetch_key_facts(5,6) [OF f] show ?thesis
    by (auto simp: refill_if_empty_def split: if_splits)
qed

lemma refill_Inl_facts:
  assumes "refill_if_empty dec s w = Inl (s1, w1)"
  shows "qkd_key_handle s1 = qkd_key_handle s"
    and "qkd_service_url s1 = qkd_service_url s"
    and "buffer_ok s \<Longrightarrow> buffer_ok s1"
    and "length (sent w1) \<le> length (sent w) + 1"
  using assms
  by (auto simp: refill_if_empty_def split: if_splits prod.splits dest: fetch_key_facts)

lemma connect_facts:
  assumes "template_engine_connect dec s w = (rc, s1, w1)"
  shows "qkd_key_buffer s1 = qkd_key_buffer s"
    and "qkd_key_buffer_len s1 = qkd_key_buffer_len s"
    and "qkd_key_buffer_pos s1 = qkd_key_buffer_pos s"
    and "rc = 0 \<Longrightarrow> qkd_key_handle s1 \<noteq> None \<and> length (sent w1) = length (sent w) + 2"
    and "length (sent w1) \<le> length (sent w) + 3"
  using assms
  by (auto simp: template_engine_connect_def connect_err_def perform_post_def
      parse_reply_def Let_def
      split: option.splits prod.splits list.splits http_reply.splits if_splits)

lemma connect_buffer_ok:
  "template_engine_connect dec s w = (rc, s1, w1) \<Longrightarrow> buffer_ok s \<Longrightarrow> buffer_ok s1"
  using connect_facts(1-3) [of dec s w rc s1 w1]
  by (auto simp: buffer_ok_def split: option.splits)

subsection \<open>The loop\<close>

declare rand_loop.simps [simp del]

lemma rand_loop_done:
  "\<not> bp < num \<Longrightarrow> rand_loop dec num s w bp buf = (1, buf, s, w)"
  by (simp add: rand_loop.simps)

lemma rand_loop_fail:
  "bp < num \<Longrightarrow> refill_if_empty dec s w = Inl (s1, w1) \<Longrightarrow>
     rand_loop dec num s w bp buf = ((if bp > 0 then 1 else 0), buf, s1, w1)"
  by (simp add: rand_loop.simps)

lemma rand_loop_step:
  "bp < num \<Longrightarrow> refill_if_empty dec s w = Inr (s1, w1) \<Longrightarrow>
     copy_bytes s1 (num - bp) = (chunk, s2, n) \<Longrightarrow>
     rand_loop dec num s w bp buf = rand_loop dec num s2 w1 (bp + int n) (buf @ chunk)"
  by (simp add: rand_loop.simps)

lemma rand_loop_cases_induct:
  assumes "\<And>dec num s w bp buf.
     (\<And>s1 w1 chunk s2 n. bp < num \<Longrightarrow> refill_if_empty dec s w = Inr (s1, w1) \<Longrightarrow>
         copy_bytes s1 (num - bp) = (chunk, s2, n) \<Longrightarrow>
         P dec num s2 w1 (bp + int n) (buf @ chunk))
     \<Longrightarrow> P dec num s w bp buf"
  shows "P dec num s w bp buf"
proof (induction dec num s w bp buf rule: rand_loop.induct)
  case (1 dec num s w bp buf)
  show ?case
  proof (rule assms)
    fix s1 w1 chunk s2 n
    assume "bp < num" and r: "refill_if_empty dec s w = Inr (s1, w1)"
      and c: "copy_bytes s1 (num - bp) = (chunk, s2, n)"
    then show "P dec num s2 w1 (bp + int n) (buf @ chunk)"
      using "1.IH" [of "(s1, w1)" s1 w1 chunk "(s2, n)" s2 n] by simp
  qed
qed

lemma rand_loop_neg:
  "num \<le> 0 \<Longrightarrow> rand_loop dec num s w 0 [] = (1, [], s, w)"
  by (simp add: rand_loop_done)

lemma rand_loop_inv:
  assumes "rand_loop dec num s w bp buf = (r, out, s', w')"
    and "buffer_ok s" and "0 \<le> bp" and "bp \<le> num" and "length buf = nat bp"
  shows "buffer_ok s' \<and> qkd_key_handle s' = qkd_key_handle s
       \<and> qkd_service_url s' = qkd_service_url s
       \<and> length out \<le> nat num
       \<and> (r = 0 \<or> r = 1)
       \<and> (r = 0 \<longrightarrow> out = [])
       \<and> (r = 1 \<longrightarrow> 0 < num \<longrightarrow> out \<noteq> [])
       \<and> (length out < nat num \<longrightarrow>
            (\<exists>s0 w0. template_engine_fetch_key dec s0 w0 = (- 1, s', w')))
       \<and> length (sent w') \<le> length (sent w) + nat (num - bp)"
  using assms
proof (induction dec num s w bp buf rule: rand_loop_cases_induct)
  case (1 dec num s w bp buf)
  show ?case
  proof (cases "bp < num")
    case False
    with "1.prems" show ?thesis
      by (auto simp: rand_loop_done)
  next
    case True
    show ?thesis
    proof (cases "refill_if_empty dec s w")
      case (Inl x)
      obtain s1 w1 where x: "x = (s1, w1)" by (cases x)
      from True Inl x "1.prems"(1)
      have res: "r = (if bp > 0 then 1 else 0)" "out = buf" "s' = s1" "w' = w1"
        by (simp_all add: rand_loop_fail)
      from refill_Inl_fetch [OF Inl [unfolded x]] res
      have "\<exists>s0 w0. template_engine_fetch_key dec s0 w0 = (- 1, s', w')"
        by blast
      with res True "1.prems" refill_Inl_facts [OF Inl [unfolded x]]
      show ?thesis by auto
    next
      case (Inr x)
      obtain s1 w1 where x: "x = (s1, w1)" by (cases x)
      obtain chunk s2 n where c: "copy_bytes s1 (num - bp) = (chunk, s2, n)"
        by (cases "copy_bytes s1 (num - bp)")
      note rf = refill_Inr_facts [OF Inr [unfolded x]]
      from "1.prems"(2) rf have ok1: "buffer_ok s1" by simp
      note cf = copy_bytes_facts [OF c]
      from cf(3) ok1 have ok2: "buffer_ok s2" and len: "length chunk = n" by simp_all
      from cf(4) rf(5) True have n: "0 < n" "int n \<le> num - bp" by simp_all
      from True Inr x c "1.prems"(1)
      have "rand_loop dec num s2 w1 (bp + int n) (buf @ chunk) = (r, out, s', w')"
        by (simp add: rand_loop_step)
      from "1.IH" [OF True Inr [unfolded x] c this ok2] n len "1.prems"
      have ih: "buffer_ok s' \<and> qkd_key_handle s' = qkd_key_handle s2
       \<and> qkd_service_url s' = qkd_service_url s2
       \<and> length out \<le> nat num
       \<and> (r = 0 \<or> r = 1)
       \<and> (r = 0 \<longrightarrow> out = [])
       \<and> (r = 1 \<longrightarrow> 0 < num \<longrightarrow> out \<noteq> [])
       \<and> (length out < nat num \<longrightarrow>
            (\<exists>s0 w0. template_engine_fetch_key dec s0 w0 = (- 1, s', w')))
       \<and> length (sent w') \<le> length (sent w1) + nat (num - (bp + int n))"
        by (simp add: nat_add_distrib)
      with cf(1,2) rf(1,2,4) n show ?thesis
        by auto
    qed
  qed
qed




lemma partial_run:
  "template_rand_bytes decode_examples configured partial_script 5
     = (1, [1, 2, 3], connected,
        \<lparr>replies = [HttpReply 200 (key_body ''BAUG'')], sent = partial_sent\<rparr>)"
  by code_simp




text \<open>
  Claim C9. The loop is the function \<open>rand_loop\<close>, total by the termination proof above
  (every iteration that continues copies at least one byte). A call never writes more
  than \<open>n\<close> bytes and sends at most \<open>3 + n\<close> requests. A failed fetch ends the loop at
  once: the result is \<^verbatim>\<open>bytes_provided > 0\<close> with the buffer, state and world as the one
  failed fetch left them, after at most one request.
\<close>

theorem rand_bytes_bounded_no_retry:
  "(buffer_ok s \<longrightarrow>
      (case template_rand_bytes dec s w n of
         (r, out, s', w') \<Rightarrow>
           length out \<le> nat n \<and> length (sent w') \<le> length (sent w) + 3 + nat n))
   \<and> (bp < num \<longrightarrow> qkd_key_buffer_len sa \<le> qkd_key_buffer_pos sa \<longrightarrow>
        template_engine_fetch_key dec sa wa = (rc, sb, wb) \<longrightarrow> rc \<noteq> 0 \<longrightarrow>
        rand_loop dec num sa wa bp buf = ((if 0 < bp then 1 else 0), buf, sb, wb)
        \<and> length (sent wb) \<le> length (sent wa) + 1)"
proof (intro conjI impI)
  assume ok: "buffer_ok s"
  obtain r out s' w' where res: "template_rand_bytes dec s w n = (r, out, s', w')"
    by (cases "template_rand_bytes dec s w n")
  have "length out \<le> nat n \<and> length (sent w') \<le> length (sent w) + 3 + nat n"
  proof (cases "qkd_key_handle s = None")
    case False
    with res have l: "rand_loop dec n s w 0 [] = (r, out, s', w')"
      by (simp add: template_rand_bytes_def)
    show ?thesis
    proof (cases "0 \<le> n")
      case True
      with rand_loop_inv [OF l ok] show ?thesis by simp
    next
      case False
      with l show ?thesis by (simp add: rand_loop_neg)
    qed
  next
    case True
    obtain rc s1 w1 where c: "template_engine_connect dec s w = (rc, s1, w1)"
      by (cases "template_engine_connect dec s w")
    show ?thesis
    proof (cases "rc = 0")
      case False
      with True c res connect_facts(5) [OF c] show ?thesis
        by (auto simp: template_rand_bytes_def)
    next
      case rc: True
      with True c res have l: "rand_loop dec n s1 w1 0 [] = (r, out, s', w')"
        by (simp add: template_rand_bytes_def)
      from connect_facts(4) [OF c rc] have two: "length (sent w1) = length (sent w) + 2"
        by simp
      show ?thesis
      proof (cases "0 \<le> n")
        case True
        with rand_loop_inv [OF l connect_buffer_ok [OF c ok]] two show ?thesis by simp
      next
        case False
        with l two show ?thesis by (simp add: rand_loop_neg)
      qed
    qed
  qed
  with res show "case template_rand_bytes dec s w n of
      (r, out, s', w') \<Rightarrow>
        length out \<le> nat n \<and> length (sent w') \<le> length (sent w) + 3 + nat n"
    by simp
next
  assume "bp < num" and "qkd_key_buffer_len sa \<le> qkd_key_buffer_pos sa"
    and f: "template_engine_fetch_key dec sa wa = (rc, sb, wb)" and "rc \<noteq> 0"
  then have "refill_if_empty dec sa wa = Inl (sb, wb)"
    by (simp add: refill_if_empty_def)
  with \<open>bp < num\<close> show "rand_loop dec num sa wa bp buf = ((if 0 < bp then 1 else 0), buf, sb, wb)"
    by (simp add: rand_loop_fail)
  from fetch_key_facts(4) [OF f] show "length (sent wb) \<le> length (sent wa) + 1" .
qed

theorem rand_bytes_bounded_no_retry_witness:
  "buffer_ok configured \<and>
   template_rand_bytes decode_examples configured partial_script 5
     = (1, [1, 2, 3], connected,
        \<lparr>replies = [HttpReply 200 (key_body ''BAUG'')], sent = partial_sent\<rparr>) \<and>
   length [1, 2, 3 :: byte] \<le> nat 5 \<and>
   length partial_sent \<le> length (sent partial_script) + 3 + nat 5 \<and>
   (3::int) < 5 \<and> qkd_key_buffer_len exhausted \<le> qkd_key_buffer_pos exhausted \<and>
   template_engine_fetch_key decode_examples exhausted
       (script [HttpReply 500 [], HttpReply 200 (key_body ''BAUG'')])
     = (- 1, connected,
        \<lparr>replies = [HttpReply 200 (key_body ''BAUG'')],
         sent = [(''http://kms/qkd_get_key'', handle_payload ''H1'')]\<rparr>) \<and>
   (- 1 :: int) \<noteq> 0 \<and>
   rand_loop decode_examples 5 exhausted
       (script [HttpReply 500 [], HttpReply 200 (key_body ''BAUG'')]) 3 [1, 2, 3]
     = (1, [1, 2, 3], connected,
        \<lparr>replies = [HttpReply 200 (key_body ''BAUG'')],
         sent = [(''http://kms/qkd_get_key'', handle_payload ''H1'')]\<rparr>)"
proof -
  have h1: "buffer_ok configured" by code_simp
  note h2 = partial_run
  have h3: "(3::int) < 5" by simp
  have h4: "qkd_key_buffer_len exhausted \<le> qkd_key_buffer_pos exhausted" by code_simp
  have h5: "template_engine_fetch_key decode_examples exhausted
       (script [HttpReply 500 [], HttpReply 200 (key_body ''BAUG'')])
     = (- 1, connected,
        \<lparr>replies = [HttpReply 200 (key_body ''BAUG'')],
         sent = [(''http://kms/qkd_get_key'', handle_payload ''H1'')]\<rparr>)"
    by code_simp
  have h6: "(- 1 :: int) \<noteq> 0" by simp
  have e: "sent \<lparr>replies = [HttpReply 200 (key_body ''BAUG'')], sent = partial_sent\<rparr>
             = partial_sent"
    by simp
  from rand_bytes_bounded_no_retry
    [where s = configured and dec = decode_examples and w = partial_script and n = 5
       and bp = 3 and num = 5 and sa = exhausted
       and wa = "script [HttpReply 500 [], HttpReply 200 (key_body ''BAUG'')]"
       and rc = "- 1" and sb = connected
       and wb = "\<lparr>replies = [HttpReply 200 (key_body ''BAUG'')],
                  sent = [(''http://kms/qkd_get_key'', handle_payload ''H1'')]\<rparr>"
       and buf = "[1, 2, 3]"]
    h1 h2 h3 h4 h5 h6 e
  show ?thesis
    by simp
qed

subsection \<open>Two requests against one\<close>

lemma rand_loop_shift:
  assumes "rand_loop dec num s w bp buf = (r, out, s', w')"
  shows "\<exists>r'. rand_loop dec (num + k) s w (bp + k) (pre @ buf) = (r', pre @ out, s', w')"
  using assms
proof (induction dec num s w bp buf rule: rand_loop_cases_induct)
  case (1 dec num s w bp buf)
  show ?case
  proof (cases "bp < num")
    case False
    with "1.prems" show ?thesis
      by (simp add: rand_loop_done)
  next
    case True
    then have lt: "bp + k < num + k" by simp
    show ?thesis
    proof (cases "refill_if_empty dec s w")
      case (Inl x)
      obtain s1 w1 where x: "x = (s1, w1)" by (cases x)
      from True lt Inl x "1.prems" show ?thesis
        by (simp add: rand_loop_fail)
    next
      case (Inr x)
      obtain s1 w1 where x: "x = (s1, w1)" by (cases x)
      obtain chunk s2 n where c: "copy_bytes s1 (num - bp) = (chunk, s2, n)"
        by (cases "copy_bytes s1 (num - bp)")
      then have c': "copy_bytes s1 (num + k - (bp + k)) = (chunk, s2, n)"
        by simp
      from True Inr x c "1.prems"
      have "rand_loop dec num s2 w1 (bp + int n) (buf @ chunk) = (r, out, s', w')"
        by (simp add: rand_loop_step)
      from "1.IH" [OF True Inr [unfolded x] c this]
      obtain r' where
        "rand_loop dec (num + k) s2 w1 (bp + int n + k) (pre @ buf @ chunk) = (r', pre @ out, s', w')"
        by blast
      moreover have "rand_loop dec (num + k) s w (bp + k) (pre @ buf)
          = rand_loop dec (num + k) s2 w1 (bp + k + int n) ((pre @ buf) @ chunk)"
        by (rule rand_loop_step [OF lt Inr [unfolded x] c'])
      ultimately show ?thesis
        by (simp add: add.commute add.left_commute)
    qed
  qed
qed

lemma rand_loop_split:
  assumes "rand_loop dec a s w bp buf = (r1, out1, s1, w1)"
    and "length out1 = nat a" and "buffer_ok s" and "0 \<le> bp" and "bp \<le> a"
    and "length buf = nat bp" and "0 \<le> b"
  shows "rand_loop dec (a + b) s w bp buf = rand_loop dec (a + b) s1 w1 a out1"
  using assms
proof (induction dec a s w bp buf rule: rand_loop_cases_induct)
  case (1 dec a s w bp buf)
  show ?case
  proof (cases "bp < a")
    case False
    with "1.prems" have "bp = a" by simp
    with "1.prems"(1) show ?thesis
      by (simp add: rand_loop_done)
  next
    case True
    then have lt: "bp < a + b" using "1.prems"(7) by simp
    show ?thesis
    proof (cases "refill_if_empty dec s w")
      case (Inl x)
      obtain sr wr where x: "x = (sr, wr)" by (cases x)
      from True Inl x "1.prems"(1) have "out1 = buf"
        by (simp add: rand_loop_fail)
      with "1.prems"(2,4,6) True show ?thesis by simp
    next
      case (Inr x)
      obtain sr wr where x: "x = (sr, wr)" by (cases x)
      note r = Inr [unfolded x]
      obtain chunk s2 n where c: "copy_bytes sr (a - bp) = (chunk, s2, n)"
        by (cases "copy_bytes sr (a - bp)")
      note rf = refill_Inr_facts [OF r]
      from "1.prems"(3) rf have okr: "buffer_ok sr" by simp
      note cf = copy_bytes_facts [OF c]
      from cf(3) okr have ok2: "buffer_ok s2" and len: "length chunk = n" by simp_all
      from cf(4) rf(5) True have n: "0 < n" "int n \<le> a - bp" by simp_all
      from True r c "1.prems"(1)
      have first: "rand_loop dec a s2 wr (bp + int n) (buf @ chunk) = (r1, out1, s1, w1)"
        by (simp add: rand_loop_step)
      let ?avail = "int (qkd_key_buffer_len sr - qkd_key_buffer_pos sr)"
      show ?thesis
      proof (cases "?avail \<le> a - bp")
        case True
        with "1.prems"(7) have "copy_bytes sr (a + b - bp) = copy_bytes sr (a - bp)"
          by (intro copy_bytes_same) simp_all
        with c have "rand_loop dec (a + b) s w bp buf
            = rand_loop dec (a + b) s2 wr (bp + int n) (buf @ chunk)"
          by (simp add: rand_loop_step [OF lt r])
        also from "1.IH" [OF \<open>bp < a\<close> r c first "1.prems"(2) ok2] n len "1.prems"(4,6,7)
        have "\<dots> = rand_loop dec (a + b) s1 w1 a out1"
          by (simp add: nat_add_distrib)
        finally show ?thesis .
      next
        case False
        then have big: "a - bp < ?avail" by simp
        with c True have na: "int n = a - bp"
          by (auto simp: copy_bytes_eq)
        with first have fin: "r1 = 1" "out1 = buf @ chunk" "s1 = s2" "w1 = wr"
          by (simp_all add: rand_loop_done)
        show ?thesis
        proof (cases "b = 0")
          case True
          with "1.prems"(1) fin na show ?thesis
            by (simp add: rand_loop_done)
        next
          case False
          with "1.prems"(7) have b: "0 < b" by simp
          obtain chunk2 s3 n2 where c2: "copy_bytes s2 b = (chunk2, s3, n2)"
            by (cases "copy_bytes s2 b")
          from True have k1: "0 \<le> a - bp" by simp
          note sp = copy_bytes_split [OF k1 "1.prems"(7) big c c2]
          from sp(3) have r2: "refill_if_empty dec s2 wr = Inr (s2, wr)"
            by (simp add: refill_if_empty_def)
          from sp(1) have c3: "copy_bytes sr (a + b - bp) = (chunk @ chunk2, s3, n + n2)"
            by (simp add: algebra_simps)
          have "rand_loop dec (a + b) s w bp buf
              = rand_loop dec (a + b) s3 wr (bp + int (n + n2)) (buf @ chunk @ chunk2)"
            by (rule rand_loop_step [OF lt r c3])
          also have "\<dots> = rand_loop dec (a + b) s3 wr (a + int n2) ((buf @ chunk) @ chunk2)"
            using na by simp
          also have "\<dots> = rand_loop dec (a + b) s2 wr a (buf @ chunk)"
          proof (rule rand_loop_step [symmetric, OF _ r2])
            from b show "a < a + b" by simp
            from c2 show "copy_bytes s2 (a + b - a) = (chunk2, s3, n2)" by simp
          qed
          finally show ?thesis
            by (simp add: fin)
        qed
      qed
    qed
  qed
qed

text \<open>
  The specification's claim C4 says that asking for \<open>a\<close> and then \<open>b\<close> bytes gives the
  bytes of one request for \<open>a + b\<close>, for every sequence of replies. A failed fetch ends
  a call, and the next call fetches again: with a failed key request between two
  blocks, 4 then 1 bytes give 1 2 3 and 4, while 5 bytes at once give 1 2 3.
\<close>

theorem concat_counterexample:
  "template_rand_bytes decode_examples configured partial_script 4
     = (1, [1, 2, 3], connected,
        \<lparr>replies = [HttpReply 200 (key_body ''BAUG'')], sent = partial_sent\<rparr>)
   \<and> template_rand_bytes decode_examples connected
        \<lparr>replies = [HttpReply 200 (key_body ''BAUG'')], sent = partial_sent\<rparr> 1
     = (1, [4],
        connected\<lparr>qkd_key_buffer := Some [4, 5, 6], qkd_key_buffer_len := 3,
                   qkd_key_buffer_pos := 1\<rparr>,
        \<lparr>replies = [],
         sent = partial_sent @ [(''http://kms/qkd_get_key'', handle_payload ''H1'')]\<rparr>)
   \<and> template_rand_bytes decode_examples configured partial_script (4 + 1)
     = (1, [1, 2, 3], connected,
        \<lparr>replies = [HttpReply 200 (key_body ''BAUG'')], sent = partial_sent\<rparr>)
   \<and> [1, 2, 3] @ [4] \<noteq> [1, 2, 3 :: byte]"
  by code_simp

text \<open>
  Claim C4, as amended. For \<open>a, b \<ge> 0\<close>, on a state satisfying the buffer invariant:
  when the request for \<open>a\<close> bytes returns 1 having written all \<open>a\<close> bytes, the request
  for \<open>b\<close> bytes that follows it and the single request for \<open>a + b\<close> bytes write the same
  bytes and end in the same state, with the same requests sent and the same replies
  left.
\<close>

theorem rand_bytes_concat:
  assumes "buffer_ok s" and "0 \<le> a" and "0 \<le> b"
    and "template_rand_bytes dec s w a = (1, out1, s1, w1)"
    and "length out1 = nat a"
    and "template_rand_bytes dec s1 w1 b = (r2, out2, s2, w2)"
  shows "\<exists>r. template_rand_bytes dec s w (a + b) = (r, out1 @ out2, s2, w2)"
proof -
  obtain sc wc where start: "template_rand_bytes dec s w a = rand_loop dec a sc wc 0 []"
      "template_rand_bytes dec s w (a + b) = rand_loop dec (a + b) sc wc 0 []"
      "buffer_ok sc" "qkd_key_handle sc \<noteq> None"
  proof (cases "qkd_key_handle s = None")
    case False
    with assms(1) that [of s w] show ?thesis
      by (simp add: template_rand_bytes_def)
  next
    case True
    obtain rc sc wc where c: "template_engine_connect dec s w = (rc, sc, wc)"
      by (cases "template_engine_connect dec s w")
    with True assms(4) have rc: "rc = 0"
      by (auto simp: template_rand_bytes_def split: if_splits)
    with True c connect_facts(4) [OF c] connect_buffer_ok [OF c assms(1)] that [of sc wc]
    show ?thesis
      by (simp add: template_rand_bytes_def)
  qed
  from start(1) assms(4) have l1: "rand_loop dec a sc wc 0 [] = (1, out1, s1, w1)"
    by simp
  from rand_loop_inv [OF l1 start(3)] assms(2) start(4)
  have h1: "qkd_key_handle s1 \<noteq> None"
    by simp
  with assms(6) have l2: "rand_loop dec b s1 w1 0 [] = (r2, out2, s2, w2)"
    by (simp add: template_rand_bytes_def)
  from rand_loop_shift [OF l2, of a out1]
  obtain r where "rand_loop dec (b + a) s1 w1 (0 + a) (out1 @ []) = (r, out1 @ out2, s2, w2)"
    by blast
  then have "rand_loop dec (a + b) s1 w1 a out1 = (r, out1 @ out2, s2, w2)"
    by (simp add: add.commute)
  moreover from rand_loop_split [OF l1 assms(5) start(3) _ assms(2) _ assms(3)]
  have "rand_loop dec (a + b) sc wc 0 [] = rand_loop dec (a + b) s1 w1 a out1"
    by simp
  ultimately show ?thesis
    using start(2) by simp
qed

theorem rand_bytes_concat_witness:
  "buffer_ok configured \<and> (0::int) \<le> 2 \<and> (0::int) \<le> 2 \<and>
   template_rand_bytes decode_examples configured two_blocks 2
     = (1, [1, 2],
        connected\<lparr>qkd_key_buffer := Some [1, 2, 3], qkd_key_buffer_len := 3,
                   qkd_key_buffer_pos := 2\<rparr>,
        \<lparr>replies = [HttpReply 200 (key_body ''BAUG'')],
         sent = take 3 partial_sent\<rparr>) \<and>
   length [1, 2 :: byte] = nat 2 \<and>
   template_rand_bytes decode_examples
       (connected\<lparr>qkd_key_buffer := Some [1, 2, 3], qkd_key_buffer_len := 3,
                   qkd_key_buffer_pos := 2\<rparr>)
       \<lparr>replies = [HttpReply 200 (key_body ''BAUG'')], sent = take 3 partial_sent\<rparr> 2
     = (1, [3, 4],
        connected\<lparr>qkd_key_buffer := Some [4, 5, 6], qkd_key_buffer_len := 3,
                   qkd_key_buffer_pos := 1\<rparr>,
        \<lparr>replies = [], sent = partial_sent\<rparr>) \<and>
   (\<exists>r. template_rand_bytes decode_examples configured two_blocks (2 + 2)
     = (r, [1, 2] @ [3, 4],
        connected\<lparr>qkd_key_buffer := Some [4, 5, 6], qkd_key_buffer_len := 3,
                   qkd_key_buffer_pos := 1\<rparr>,
        \<lparr>replies = [], sent = partial_sent\<rparr>))"
proof -
  have h1: "buffer_ok configured" by code_simp
  have h2: "(0::int) \<le> 2" by simp
  have h4: "template_rand_bytes decode_examples configured two_blocks 2
     = (1, [1, 2],
        connected\<lparr>qkd_key_buffer := Some [1, 2, 3], qkd_key_buffer_len := 3,
                   qkd_key_buffer_pos := 2\<rparr>,
        \<lparr>replies = [HttpReply 200 (key_body ''BAUG'')],
         sent = take 3 partial_sent\<rparr>)"
    by code_simp
  have h5: "length [1, 2 :: byte] = nat 2" by simp
  have h6: "template_rand_bytes decode_examples
       (connected\<lparr>qkd_key_buffer := Some [1, 2, 3], qkd_key_buffer_len := 3,
                   qkd_key_buffer_pos := 2\<rparr>)
       \<lparr>replies = [HttpReply 200 (key_body ''BAUG'')], sent = take 3 partial_sent\<rparr> 2
     = (1, [3, 4],
        connected\<lparr>qkd_key_buffer := Some [4, 5, 6], qkd_key_buffer_len := 3,
                   qkd_key_buffer_pos := 1\<rparr>,
        \<lparr>replies = [], sent = partial_sent\<rparr>)"
    by code_simp
  from rand_bytes_concat [OF h1 h2 h2 h4 h5 h6] h1 h2 h4 h5 h6 show ?thesis
    by blast
qed

end
